theory Spec2Isabelle
  imports Complex_Main
begin

section \<open>Data model\<close>

text \<open>
  The dtype tags of the unified array: booleans, signed and unsigned integers of fixed
  width, floating-point widths. The source names them by strings (\<^verbatim>\<open>"float16"\<close>,
  \<^verbatim>\<open>"bfloat16"\<close>, \<^verbatim>\<open>"int8"\<close>, \<^verbatim>\<open>"int32"\<close>, ...) and by native tags
  (\<^verbatim>\<open>torch.float32\<close>); one enumeration stands for both, so that
  \<^verbatim>\<open>ivy.as_native_dtype\<close> is the identity on it.
\<close>

datatype dtype =
  Bool | Int8 | Int16 | Int32 | Int64 | UInt8 | UInt16 | UInt32 | UInt64
  | BFloat16 | Float16 | Float32 | Float64

definition is_float_dtype :: "dtype \<Rightarrow> bool" where
  "is_float_dtype d = (d = BFloat16 \<or> d = Float16 \<or> d = Float32 \<or> d = Float64)"

text \<open>
  A tensor: its dtype tag, its shape and its elements in row-major order. Elements are
  exact real numbers; the rounding of a floating-point width is outside the model.
\<close>

record tensor =
  dtype :: dtype
  shape :: "nat list"
  data :: "real list"

definition numel :: "nat list \<Rightarrow> nat" where
  "numel s = prod_list s"

text \<open>
  Every raise of the source, and every failure of a library call, is an error value.
  \<open>NotModelled\<close> is no error of the program: a model of a library function answers
  it on the inputs it does not describe.
\<close>

datatype error =
  UnsupportedDtype | UnsupportedPromotion | ShapeMismatch | OutputShapeMismatch
  | KeyMismatch
  | IndexError | OverflowError | ValueError | TypeError | RuntimeError
  | IvyException | BackendKernelError | NotModelled

text \<open>
  Objects with identity. The only objects the backend functions ever write to are the
  buffers passed as \<^verbatim>\<open>out\<close>; a store maps the reference of each such buffer to the
  tensor it holds. What a call returns is a Python object: a tensor created by the call
  (\<open>Fresh\<close>), an object that existed before the call (\<open>Into\<close>, by its reference), or
  \<^verbatim>\<open>None\<close>.
\<close>

type_synonym ref = nat

type_synonym store = "ref \<Rightarrow> tensor option"

datatype result = Fresh tensor | Into ref | NoneResult

type_synonym outcome = "error + (result \<times> store)"

fun value_of :: "store \<Rightarrow> result \<Rightarrow> tensor option" where
  "value_of s (Fresh v) = Some v"
| "value_of s (Into r) = s r"
| "value_of s NoneResult = None"

text \<open>
  Modelled from the spec: \<^verbatim>\<open>ivy.inplace_update\<close> is not among the sources. The
  spec's output-argument protocol has it copy the computed result into the existing
  buffer's storage and return the buffer itself, so that its identity is preserved.
  The test \<^verbatim>\<open>ivy.exists(out)\<close> in front of its calls is \<^verbatim>\<open>out is not None\<close>: a
  case distinction on the optional buffer.
\<close>

definition inplace_update :: "ref \<Rightarrow> result \<Rightarrow> store \<Rightarrow> outcome" where
  "inplace_update out ret s =
     (case value_of s ret of
        None \<Rightarrow> Inl TypeError
      | Some v \<Rightarrow> Inr (Into out, s(out \<mapsto> v)))"

text \<open>
  A native call \<^verbatim>\<open>torch.f(..., out=out)\<close>, given what the kernel computes: with no
  buffer the result is a new tensor; with a buffer the result is written into it and the
  buffer is what the call returns. A failing kernel writes nothing.
\<close>

definition torch_out :: "error + tensor \<Rightarrow> ref option \<Rightarrow> store \<Rightarrow> outcome" where
  "torch_out r out s =
     (case r of
        Inl e \<Rightarrow> Inl e
      | Inr v \<Rightarrow>
          (case out of
             None \<Rightarrow> Inr (Fresh v, s)
           | Some b \<Rightarrow> Inr (Into b, s(b \<mapsto> v))))"

section \<open>Library functions on shapes\<close>

text \<open>
  A dimension argument of the library: negative values count from the end. A tensor of
  rank 0 accepts the dimensions \<open>-1\<close> and \<open>0\<close>.
\<close>

definition wrap_dim :: "nat \<Rightarrow> int \<Rightarrow> error + nat" where
  "wrap_dim r d =
     (let n = (if r = 0 then 1 else int r)
      in if d < - n \<or> n \<le> d then Inl IndexError
         else Inr (nat (if d < 0 then d + n else d)))"

fun unravel :: "nat list \<Rightarrow> nat \<Rightarrow> nat list" where
  "unravel [] k = []"
| "unravel (d # ds) k = (k div prod_list ds) # unravel ds (k mod prod_list ds)"

fun ravel :: "nat list \<Rightarrow> nat list \<Rightarrow> nat" where
  "ravel (d # ds) (i # is) = i * prod_list ds + ravel ds is"
| "ravel _ _ = 0"

definition swap :: "nat \<Rightarrow> nat \<Rightarrow> 'a list \<Rightarrow> 'a list" where
  "swap a b xs = (if a < length xs \<and> b < length xs then xs[a := xs ! b, b := xs ! a] else xs)"

text \<open>
  \<^verbatim>\<open>torch.transpose(x, dim0, dim1)\<close>: the two dimensions are exchanged; the element at
  an index of the result is the element of \<open>x\<close> at the index with the two positions
  exchanged.
\<close>

definition torch_transpose :: "tensor \<Rightarrow> int \<Rightarrow> int \<Rightarrow> error + tensor" where
  "torch_transpose x dim0 dim1 =
     (case wrap_dim (length (shape x)) dim0 of
        Inl e \<Rightarrow> Inl e
      | Inr a \<Rightarrow>
          (case wrap_dim (length (shape x)) dim1 of
             Inl e \<Rightarrow> Inl e
           | Inr b \<Rightarrow>
               (let s' = swap a b (shape x)
                in Inr (x\<lparr>shape := s',
                          data := map (\<lambda>k. data x ! ravel (shape x) (swap a b (unravel s' k)))
                                    [0..<numel s']\<rparr>))))"

text \<open>
  \<^verbatim>\<open>torch.t(x)\<close>: tensors of rank 0 and 1 are returned as they are, a matrix is
  transposed, a tensor of higher rank is refused.
\<close>

definition torch_t :: "tensor \<Rightarrow> error + tensor" where
  "torch_t x =
     (if length (shape x) < 2 then Inr x
      else if length (shape x) = 2 then torch_transpose x 0 1
      else Inl RuntimeError)"

section \<open>The torch backend\<close>

text \<open>
  The numeric kernels of the library are parameters of the backend functions: a kernel
  takes tensors and either fails or returns a tensor.
\<close>

type_synonym kernel1 = "tensor \<Rightarrow> error + tensor"

type_synonym kernel2 = "tensor \<Rightarrow> tensor \<Rightarrow> error + tensor"

subsection \<open>cholesky\<close>

definition cholesky :: "kernel1 \<Rightarrow> tensor \<Rightarrow> bool \<Rightarrow> ref option \<Rightarrow> store \<Rightarrow> outcome" where
  "cholesky torch_linalg_cholesky x upper out s =
     (if \<not> upper then torch_out (torch_linalg_cholesky x) out s
      else
        (case torch_transpose x (int (length (shape x)) - 1) (int (length (shape x)) - 2) of
           Inl e \<Rightarrow> Inl e
         | Inr xt \<Rightarrow>
             (case torch_linalg_cholesky xt of
                Inl e \<Rightarrow> Inl e
              | Inr l \<Rightarrow>
                  (case torch_transpose l (int (length (shape x)) - 1)
                          (int (length (shape x)) - 2) of
                     Inl e \<Rightarrow> Inl e
                   | Inr ret \<Rightarrow>
                       (case out of
                          Some b \<Rightarrow> inplace_update b (Fresh ret) s
                        | None \<Rightarrow> Inr (Fresh ret, s))))))"

subsection \<open>inv\<close>

text \<open>
  The backend's \<^verbatim>\<open>inv\<close>, named \<open>inv_torch\<close> here (\<open>inv\<close> is a constant of HOL).
  The values the test \<^verbatim>\<open>torch.linalg.det == 0\<close> compares: a function object of the
  library and a number. Python's \<^verbatim>\<open>==\<close> between a function object and a number is
  the default comparison by identity, which is false.
\<close>

datatype pyobj = Callable string | Number real

fun py_eq :: "pyobj \<Rightarrow> pyobj \<Rightarrow> bool" where
  "py_eq (Callable f) (Callable g) = (f = g)"
| "py_eq (Number a) (Number b) = (a = b)"
| "py_eq (Callable f) (Number b) = False"
| "py_eq (Number a) (Callable g) = False"

definition inv_torch :: "kernel1 \<Rightarrow> tensor \<Rightarrow> bool \<Rightarrow> ref option \<Rightarrow> store \<Rightarrow> outcome" where
  "inv_torch torch_inverse x adjoint out s =
     (if py_eq (Callable ''torch.linalg.det'') (Number 0) then
        (case out of
           Some b \<Rightarrow> inplace_update b (Fresh x) s
         | None \<Rightarrow> Inr (NoneResult, s))
      else if \<not> adjoint then torch_out (torch_inverse x) out s
      else
        (case torch_t x of
           Inl e \<Rightarrow> Inl e
         | Inr xt \<Rightarrow>
             (case torch_out (torch_inverse xt) out s of
                Inl e \<Rightarrow> Inl e
              | Inr (ret, s') \<Rightarrow>
                  (case out of
                     Some b \<Rightarrow> inplace_update b ret s'
                   | None \<Rightarrow> Inr (ret, s')))))"

subsection \<open>matrix_norm\<close>

text \<open>
  The \<^verbatim>\<open>ord\<close> argument is an int, a float (among them \<^verbatim>\<open>inf\<close> and \<^verbatim>\<open>-inf\<close>,
  which are \<^verbatim>\<open>float("inf")\<close> and its negation) or one of the strings \<^verbatim>\<open>"fro"\<close>
  and \<^verbatim>\<open>"nuc"\<close>.
\<close>

datatype pyfloat = Finite real | PosInf | NegInf | NaN

datatype pyord = OrdInt int | OrdFloat pyfloat | OrdStr string

text \<open>
  Python's \<^verbatim>\<open>int(f)\<close> on a float: truncation towards zero; OverflowError on an
  infinity, ValueError on a NaN.
\<close>

fun py_int :: "pyfloat \<Rightarrow> error + int" where
  "py_int (Finite r) = Inr (if 0 \<le> r then \<lfloor>r\<rfloor> else \<lceil>r\<rceil>)"
| "py_int PosInf = Inl OverflowError"
| "py_int NegInf = Inl OverflowError"
| "py_int NaN = Inl ValueError"

type_synonym norm_kernel = "tensor \<Rightarrow> pyord \<Rightarrow> int \<times> int \<Rightarrow> bool \<Rightarrow> error + tensor"

definition matrix_norm ::
  "norm_kernel \<Rightarrow> tensor \<Rightarrow> pyord \<Rightarrow> int \<times> int \<Rightarrow> bool \<Rightarrow> ref option \<Rightarrow> store \<Rightarrow> outcome" where
  "matrix_norm torch_linalg_matrix_norm x ord axis keepdims out s =
     (case (case ord of
              OrdFloat f \<Rightarrow> (case py_int f of Inl e \<Rightarrow> Inl e | Inr n \<Rightarrow> Inr (OrdInt n))
            | _ \<Rightarrow> Inr ord) of
        Inl e \<Rightarrow> Inl e
      | Inr ord' \<Rightarrow> torch_out (torch_linalg_matrix_norm x ord' axis keepdims) out s)"

subsection \<open>Casting and promotion\<close>

text \<open>
  \<^verbatim>\<open>x.type(d)\<close>, \<^verbatim>\<open>x.to(dtype=d)\<close>: a tensor that has the dtype already is returned
  as it is; otherwise the tag changes and every element is converted. How the library
  converts a number from one dtype to another (rounding to a floating-point width,
  truncating and wrapping to an integer width) is not fixed by the sources: the
  conversion is a parameter, a function of the two dtypes and the number.
\<close>

type_synonym conversion = "dtype \<Rightarrow> dtype \<Rightarrow> real \<Rightarrow> real"

definition astype :: "conversion \<Rightarrow> dtype \<Rightarrow> tensor \<Rightarrow> tensor" where
  "astype convert d x =
     (if dtype x = d then x
      else x\<lparr>dtype := d, data := map (convert (dtype x) d) (data x)\<rparr>)"

text \<open>
  The promotion table (\<^verbatim>\<open>ivy.promote_types\<close>) is not among the sources: it is a
  parameter, a function from two dtypes to the promoted dtype that may fail with
  UnsupportedPromotion.
\<close>

type_synonym promotion = "dtype \<Rightarrow> dtype \<Rightarrow> error + dtype"

text \<open>
  Modelled from the spec: \<^verbatim>\<open>ivy.promote_types_of_inputs\<close> is not among the sources.
  The spec has the promotion stage compute the promoted dtype of the two operands and
  cast both operands up to it.
\<close>

definition promote_types_of_inputs ::
  "promotion \<Rightarrow> conversion \<Rightarrow> tensor \<Rightarrow> tensor \<Rightarrow> error + (tensor \<times> tensor)" where
  "promote_types_of_inputs promote_types convert x1 x2 =
     (case promote_types (dtype x1) (dtype x2) of
        Inl e \<Rightarrow> Inl e
      | Inr p \<Rightarrow> Inr (astype convert p x1, astype convert p x2))"


subsection \<open>matmul, inner, outer\<close>

definition matmul ::
  "promotion \<Rightarrow> conversion \<Rightarrow> kernel2 \<Rightarrow> tensor \<Rightarrow> tensor \<Rightarrow> bool \<Rightarrow> bool \<Rightarrow> ref option \<Rightarrow> store \<Rightarrow> outcome" where
  "matmul promote_types convert torch_matmul x1 x2 transpose_a transpose_b out s =
     (case (if transpose_a then torch_t x1 else Inr x1) of
        Inl e \<Rightarrow> Inl e
      | Inr a \<Rightarrow>
          (case (if transpose_b then torch_t x2 else Inr x2) of
             Inl e \<Rightarrow> Inl e
           | Inr b \<Rightarrow>
               (case promote_types_of_inputs promote_types convert a b of
                  Inl e \<Rightarrow> Inl e
                | Inr (a', b') \<Rightarrow> torch_out (torch_matmul a' b') out s)))"



subsection \<open>cross\<close>



subsection \<open>solve\<close>


text \<open>
  \<^verbatim>\<open>torch.unsqueeze(x, dim)\<close> inserts a dimension of size one; the dimension ranges
  over one more position than the rank. \<^verbatim>\<open>torch.squeeze(x, dim)\<close> removes the
  dimension when its size is one. \<^verbatim>\<open>torch.reshape\<close> keeps the elements and needs
  their number to agree.
\<close>

definition torch_unsqueeze :: "tensor \<Rightarrow> int \<Rightarrow> error + tensor" where
  "torch_unsqueeze x d =
     (let n = int (length (shape x)) + 1
      in if d < - n \<or> n \<le> d then Inl IndexError
         else (let p = nat (if d < 0 then d + n else d)
               in Inr (x\<lparr>shape := take p (shape x) @ [1] @ drop p (shape x)\<rparr>)))"








subsection \<open>tensordot, vecdot\<close>





subsection \<open>det, eigh\<close>

definition det :: "kernel1 \<Rightarrow> tensor \<Rightarrow> ref option \<Rightarrow> store \<Rightarrow> outcome" where
  "det torch_linalg_det x out s = torch_out (torch_linalg_det x) out s"

text \<open>
  The kernel of eigh returns the pair of the eigenvalues and the eigenvectors; its
  \<^verbatim>\<open>out\<close> is a pair of buffers.
\<close>

definition eigh ::
  "(tensor \<Rightarrow> string \<Rightarrow> error + tensor \<times> tensor) \<Rightarrow> tensor \<Rightarrow> string \<Rightarrow> (ref \<times> ref) option
     \<Rightarrow> store \<Rightarrow> error + ((result \<times> result) \<times> store)" where
  "eigh torch_linalg_eigh x UPLO out s =
     (case torch_linalg_eigh x UPLO of
        Inl e \<Rightarrow> Inl e
      | Inr (w, v) \<Rightarrow>
          (case out of
             None \<Rightarrow> Inr ((Fresh w, Fresh v), s)
           | Some (bw, bv) \<Rightarrow> Inr ((Into bw, Into bv), s(bw \<mapsto> w, bv \<mapsto> v))))"

subsection \<open>trace\<close>

text \<open>
  \<^verbatim>\<open>torch.diagonal(x, offset, dim1, dim2)\<close>: the two dimensions must differ; they are
  removed from the shape and the length of the diagonal is appended. The element at
  position \<open>t\<close> of a diagonal is the element of \<open>x\<close> whose index in \<open>dim1\<close> is \<open>t\<close>
  (moved down by a negative offset) and whose index in \<open>dim2\<close> is \<open>t\<close> (moved right by
  a positive offset). \<open>place\<close> builds the index into \<open>x\<close>: it runs over the positions
  of the rank and takes the two diagonal coordinates at \<open>dim1\<close> and \<open>dim2\<close>, the
  remaining coordinates in order elsewhere.
\<close>

definition diag_len :: "nat \<Rightarrow> nat \<Rightarrow> int \<Rightarrow> nat" where
  "diag_len n1 n2 offset =
     (if 0 \<le> offset then nat (min (int n1) (int n2 - offset))
      else nat (min (int n1 + offset) (int n2)))"

fun place :: "nat list \<Rightarrow> nat \<Rightarrow> nat \<Rightarrow> nat \<Rightarrow> nat \<Rightarrow> nat list \<Rightarrow> nat list" where
  "place [] d1 i d2 j rest = []"
| "place (p # ps) d1 i d2 j rest =
     (if p = d1 then i # place ps d1 i d2 j rest
      else if p = d2 then j # place ps d1 i d2 j rest
      else (case rest of [] \<Rightarrow> [] | q # qs \<Rightarrow> q # place ps d1 i d2 j qs))"

definition torch_diagonal :: "tensor \<Rightarrow> int \<Rightarrow> int \<Rightarrow> int \<Rightarrow> error + tensor" where
  "torch_diagonal x offset dim1 dim2 =
     (case wrap_dim (length (shape x)) dim1 of
        Inl e \<Rightarrow> Inl e
      | Inr d1 \<Rightarrow>
          (case wrap_dim (length (shape x)) dim2 of
             Inl e \<Rightarrow> Inl e
           | Inr d2 \<Rightarrow>
               if d1 = d2 then Inl RuntimeError
               else
                 (let sh = shape x;
                      r = length sh;
                      rest = map (\<lambda>p. sh ! p) (filter (\<lambda>p. p \<noteq> d1 \<and> p \<noteq> d2) [0..<r]);
                      sh' = rest @ [diag_len (sh ! d1) (sh ! d2) offset]
                  in Inr (x\<lparr>shape := sh',
                            data :=
                              map (\<lambda>k. data x !
                                     ravel sh
                                       (place [0..<r] d1 (last (unravel sh' k) + nat (- offset))
                                          d2 (last (unravel sh' k) + nat offset)
                                          (butlast (unravel sh' k))))
                                [0..<numel sh']\<rparr>))))"

text \<open>
  \<^verbatim>\<open>torch.sum(x)\<close>: the sum of all elements, a tensor of rank 0; integers and booleans
  are summed as int64.
\<close>

definition torch_sum :: "tensor \<Rightarrow> tensor" where
  "torch_sum x =
     \<lparr>dtype = (if is_float_dtype (dtype x) then dtype x else Int64),
      shape = [],
      data = [sum_list (data x)]\<rparr>"

text \<open>The argument \<^verbatim>\<open>out\<close> of trace is never used.\<close>

definition trace :: "tensor \<Rightarrow> int \<Rightarrow> int \<Rightarrow> int \<Rightarrow> ref option \<Rightarrow> store \<Rightarrow> outcome" where
  "trace x offset axis1 axis2 out s =
     (case torch_diagonal x offset axis1 axis2 of
        Inl e \<Rightarrow> Inl e
      | Inr d \<Rightarrow> Inr (Fresh (torch_sum d), s))"

subsection \<open>vector_norm\<close>

text \<open>
  The \<^verbatim>\<open>axis\<close> is \<^verbatim>\<open>None\<close>, an int (a list of one element here) or a sequence of
  ints. \<^verbatim>\<open>py_normalized_vector.shape == ()\<close> holds for a tensor of rank 0.
\<close>

type_synonym vector_norm_kernel = "tensor \<Rightarrow> pyord \<Rightarrow> int list option \<Rightarrow> bool \<Rightarrow> error + tensor"

definition vector_norm ::
  "vector_norm_kernel \<Rightarrow> tensor \<Rightarrow> int list option \<Rightarrow> bool \<Rightarrow> pyord \<Rightarrow> ref option \<Rightarrow> store
     \<Rightarrow> outcome" where
  "vector_norm torch_linalg_vector_norm x axis keepdims ord out s =
     (case torch_out (torch_linalg_vector_norm x ord axis keepdims) out s of
        Inl e \<Rightarrow> Inl e
      | Inr (py_normalized_vector, s') \<Rightarrow>
          (case value_of s' py_normalized_vector of
             None \<Rightarrow> Inl TypeError
           | Some v \<Rightarrow>
               if shape v = [] then
                 (case torch_unsqueeze v 0 of
                    Inl e \<Rightarrow> Inl e
                  | Inr ret \<Rightarrow> Inr (Fresh ret, s'))
               else Inr (py_normalized_vector, s')))"

section \<open>Models of two library kernels\<close>

text \<open>
  \<^verbatim>\<open>torch.matmul\<close> on exact numbers, for operands of rank at most two and of one
  dtype: two vectors give their inner product as a tensor of rank 0, two matrices the
  matrix product, a vector and a matrix the product with the vector as a row (on the
  left) or as a column (on the right), without the added dimension. An operand of rank
  0 and sizes that do not agree are refused. Stacks of matrices are not modelled.
\<close>

definition mat_prod :: "nat \<Rightarrow> nat \<Rightarrow> nat \<Rightarrow> real list \<Rightarrow> real list \<Rightarrow> real list" where
  "mat_prod m k n a b =
     concat (map (\<lambda>i. map (\<lambda>j. sum_list (map (\<lambda>l. a ! (i * k + l) * b ! (l * n + j)) [0..<k]))
                         [0..<n])
               [0..<m])"

fun matmul_on :: "nat list \<Rightarrow> nat list \<Rightarrow> real list \<Rightarrow> real list \<Rightarrow> error + (nat list \<times> real list)" where
  "matmul_on [] sb a b = Inl RuntimeError"
| "matmul_on sa [] a b = Inl RuntimeError"
| "matmul_on [k] [k'] a b =
     (if k = k' then Inr ([], [sum_list (map (\<lambda>(u, v). u * v) (zip a b))]) else Inl RuntimeError)"
| "matmul_on [m, k] [k', n] a b =
     (if k = k' then Inr ([m, n], mat_prod m k n a b) else Inl RuntimeError)"
| "matmul_on [k] [k', n] a b =
     (if k = k' then Inr ([n], mat_prod 1 k n a b) else Inl RuntimeError)"
| "matmul_on [m, k] [k'] a b =
     (if k = k' then Inr ([m], mat_prod m k 1 a b) else Inl RuntimeError)"
| "matmul_on sa sb a b = Inl NotModelled"

definition torch_matmul :: kernel2 where
  "torch_matmul x1 x2 =
     (if dtype x1 = dtype x2 then
        (case matmul_on (shape x1) (shape x2) (data x1) (data x2) of
           Inl e \<Rightarrow> Inl e
         | Inr (sh, d) \<Rightarrow> Inr \<lparr>dtype = dtype x1, shape = sh, data = d\<rparr>)
      else Inl RuntimeError)"

text \<open>
  \<^verbatim>\<open>torch.linalg.vector_norm(x, ord, dim, keepdim)\<close> on exact numbers, with
  \<^verbatim>\<open>dim=None\<close>: the norm of all elements, as a tensor of rank 0, or of the rank of
  \<open>x\<close> with every size one when \<^verbatim>\<open>keepdim\<close> is set. The order 0 counts the non-zero
  elements, an infinite order takes the largest or the smallest magnitude, any other
  order \<open>p\<close> is the \<open>p\<close>-norm. Integer tensors are refused. Norms along given
  dimensions are not modelled.
\<close>

definition p_norm :: "real \<Rightarrow> real list \<Rightarrow> real" where
  "p_norm p v =
     (if p = 0 then real (length (filter (\<lambda>a. a \<noteq> 0) v))
      else (sum_list (map (\<lambda>a. \<bar>a\<bar> powr p) v)) powr (1 / p))"

fun norm_of :: "pyord \<Rightarrow> real list \<Rightarrow> error + real" where
  "norm_of (OrdStr w) v = Inl TypeError"
| "norm_of (OrdInt n) v = Inr (p_norm (of_int n) v)"
| "norm_of (OrdFloat (Finite p)) v = Inr (p_norm p v)"
| "norm_of (OrdFloat PosInf) v =
     (case v of [] \<Rightarrow> Inl RuntimeError | a # as \<Rightarrow> Inr (fold max (map abs as) \<bar>a\<bar>))"
| "norm_of (OrdFloat NegInf) v =
     (case v of [] \<Rightarrow> Inl RuntimeError | a # as \<Rightarrow> Inr (fold min (map abs as) \<bar>a\<bar>))"
| "norm_of (OrdFloat NaN) v = Inl NotModelled"

definition torch_linalg_vector_norm :: vector_norm_kernel where
  "torch_linalg_vector_norm x ord axis keepdims =
     (if \<not> is_float_dtype (dtype x) then Inl RuntimeError
      else
        (case axis of
           Some ds \<Rightarrow> Inl NotModelled
         | None \<Rightarrow>
             (case norm_of ord (data x) of
                Inl e \<Rightarrow> Inl e
              | Inr r \<Rightarrow>
                  Inr \<lparr>dtype = dtype x,
                       shape = (if keepdims then replicate (length (shape x)) 1 else []),
                       data = [r]\<rparr>)))"

section \<open>The unsupported-dtype guard\<close>

text \<open>
  The tables are in the sources: the decorator
  \<^verbatim>\<open>@with_unsupported_dtypes({"1.11.0 and below": ("float16", "bfloat16")}, version)\<close>
  on cholesky, det and eigh, the attribute
  \<^verbatim>\<open>trace.unsupported_dtypes = ("float16", "bfloat16")\<close> on trace. A key names the
  versions an entry holds for; a version is the list of its numbers.
\<close>

datatype version_key = AndBelow "nat list" | AndAbove "nat list" | Exactly "nat list"

type_synonym dtype_table = "(version_key \<times> dtype list) list"

fun version_le :: "nat list \<Rightarrow> nat list \<Rightarrow> bool" where
  "version_le [] w = True"
| "version_le (a # v) [] = (a = 0 \<and> version_le v [])"
| "version_le (a # v) (b # w) = (a < b \<or> (a = b \<and> version_le v w))"

fun key_matches :: "version_key \<Rightarrow> nat list \<Rightarrow> bool" where
  "key_matches (AndBelow v) w = version_le w v"
| "key_matches (AndAbove v) w = version_le v w"
| "key_matches (Exactly v) w = (version_le v w \<and> version_le w v)"

definition unsupported_for :: "dtype_table \<Rightarrow> nat list \<Rightarrow> dtype list" where
  "unsupported_for table version =
     concat (map snd (filter (\<lambda>entry. key_matches (fst entry) version) table))"

text \<open>
  Modelled from the spec: the decorator \<^verbatim>\<open>with_unsupported_dtypes\<close> and the stage of
  the dispatch pipeline that reads the tables are not among the sources. The spec has
  the pipeline check the dtype of every tensor argument against the table of the
  operation for the version of the active backend, and fail with UnsupportedDtype before
  any native call. \<open>call\<close> is what the operation would do.
\<close>

definition unsupported_dtype_guard :: "dtype list \<Rightarrow> tensor list \<Rightarrow> error + 'a \<Rightarrow> error + 'a" where
  "unsupported_dtype_guard unsupported args call =
     (if list_ex (\<lambda>x. dtype x \<in> set unsupported) args then Inl UnsupportedDtype else call)"

definition with_unsupported_dtypes ::
  "dtype_table \<Rightarrow> nat list \<Rightarrow> tensor list \<Rightarrow> error + 'a \<Rightarrow> error + 'a" where
  "with_unsupported_dtypes table version args call =
     unsupported_dtype_guard (unsupported_for table version) args call"

definition guarded_cholesky ::
  "nat list \<Rightarrow> kernel1 \<Rightarrow> tensor \<Rightarrow> bool \<Rightarrow> ref option \<Rightarrow> store \<Rightarrow> outcome" where
  "guarded_cholesky version k x upper out s =
     with_unsupported_dtypes [(AndBelow [1, 11, 0], [Float16, BFloat16])] version [x]
       (cholesky k x upper out s)"

definition guarded_det :: "nat list \<Rightarrow> kernel1 \<Rightarrow> tensor \<Rightarrow> ref option \<Rightarrow> store \<Rightarrow> outcome" where
  "guarded_det version k x out s =
     with_unsupported_dtypes [(AndBelow [1, 11, 0], [Float16, BFloat16])] version [x]
       (det k x out s)"

definition guarded_eigh ::
  "nat list \<Rightarrow> (tensor \<Rightarrow> string \<Rightarrow> error + tensor \<times> tensor) \<Rightarrow> tensor \<Rightarrow> string
     \<Rightarrow> (ref \<times> ref) option \<Rightarrow> store \<Rightarrow> error + ((result \<times> result) \<times> store)" where
  "guarded_eigh version k x UPLO out s =
     with_unsupported_dtypes [(AndBelow [1, 11, 0], [Float16, BFloat16])] version [x]
       (eigh k x UPLO out s)"

definition guarded_trace ::
  "tensor \<Rightarrow> int \<Rightarrow> int \<Rightarrow> int \<Rightarrow> ref option \<Rightarrow> store \<Rightarrow> outcome" where
  "guarded_trace x offset axis1 axis2 out s =
     unsupported_dtype_guard [Float16, BFloat16] [x] (trace x offset axis1 axis2 out s)"

section \<open>Containers\<close>

text \<open>
  A Container maps string keys to values, in insertion order; a value is a leaf or a
  Container again.
\<close>

datatype 'a nest = Leaf 'a | Container "(string \<times> 'a nest) list"

text \<open>
  Modelled from the spec: the broadcast engine (\<^verbatim>\<open>handle_nestable\<close>) is not among the
  sources. The spec: a primary argument that is no Container goes to the operation
  directly. For a Container, every key of the primary is looked up in every other
  argument that is a Container (KeyMismatch when it is absent), an argument that is no
  Container serves every key as it is, the operation is applied per key, recursively, and
  the results make a Container with the keys of the primary in their order.
\<close>

fun select_key :: "string \<Rightarrow> 'a nest \<Rightarrow> error + 'a nest" where
  "select_key k (Leaf v) = Inr (Leaf v)"
| "select_key k (Container kvs) =
     (case map_of kvs k of None \<Rightarrow> Inl KeyMismatch | Some w \<Rightarrow> Inr w)"

fun select_all :: "string \<Rightarrow> 'a nest list \<Rightarrow> error + 'a nest list" where
  "select_all k [] = Inr []"
| "select_all k (a # as) =
     (case select_key k a of
        Inl e \<Rightarrow> Inl e
      | Inr w \<Rightarrow> (case select_all k as of Inl e \<Rightarrow> Inl e | Inr ws \<Rightarrow> Inr (w # ws)))"

fun broadcast :: "('a nest list \<Rightarrow> error + 'a nest) \<Rightarrow> 'a nest \<Rightarrow> 'a nest list \<Rightarrow> error + 'a nest"
  and broadcast_items ::
    "('a nest list \<Rightarrow> error + 'a nest) \<Rightarrow> (string \<times> 'a nest) list \<Rightarrow> 'a nest list
       \<Rightarrow> error + (string \<times> 'a nest) list" where
  "broadcast op (Leaf v) rest = op (Leaf v # rest)"
| "broadcast op (Container kvs) rest =
     (case broadcast_items op kvs rest of Inl e \<Rightarrow> Inl e | Inr rs \<Rightarrow> Inr (Container rs))"
| "broadcast_items op [] rest = Inr []"
| "broadcast_items op ((k, v) # kvs) rest =
     (case select_all k rest of
        Inl e \<Rightarrow> Inl e
      | Inr rest_k \<Rightarrow>
          (case broadcast op v rest_k of
             Inl e \<Rightarrow> Inl e
           | Inr r \<Rightarrow>
               (case broadcast_items op kvs rest of
                  Inl e \<Rightarrow> Inl e
                | Inr rs \<Rightarrow> Inr ((k, r) # rs))))"

text \<open>
  Modelled from the spec: \<^verbatim>\<open>ivy.layer_norm\<close> is not among the sources. It is a
  nestable operation: the plain-array layer normalisation (a parameter here) broadcast
  over its arguments, the input being the primary one.
\<close>

definition ivy_layer_norm ::
  "('a nest list \<Rightarrow> error + 'a nest) \<Rightarrow> 'a nest \<Rightarrow> 'a nest \<Rightarrow> 'a nest \<Rightarrow> 'a nest \<Rightarrow> 'a nest
     \<Rightarrow> 'a nest \<Rightarrow> 'a nest \<Rightarrow> error + 'a nest" where
  "ivy_layer_norm array_layer_norm x normalized_idxs weight bias epsilon new_std out =
     broadcast array_layer_norm x [normalized_idxs, weight, bias, epsilon, new_std, out]"

text \<open>The method \<^verbatim>\<open>ContainerWithNorms.layer_norm\<close>.\<close>

definition layer_norm ::
  "('a nest list \<Rightarrow> error + 'a nest) \<Rightarrow> 'a nest \<Rightarrow> 'a nest \<Rightarrow> 'a nest \<Rightarrow> 'a nest \<Rightarrow> 'a nest
     \<Rightarrow> 'a nest \<Rightarrow> 'a nest \<Rightarrow> error + 'a nest" where
  "layer_norm array_layer_norm self normalized_idxs weight bias epsilon new_std out =
     ivy_layer_norm array_layer_norm self normalized_idxs weight bias epsilon new_std out"

text \<open>The values at the leaves of the Containers of a call: arrays, floats, lists of indices, \<^verbatim>\<open>None\<close>.\<close>

datatype leaf = Array tensor | Scalar real | Indices "int list" | Absent

section \<open>Triangular matrices\<close>

text \<open>
  A matrix is lower-triangular when every element above the main diagonal is zero,
  upper-triangular when every element below it is zero.
\<close>

definition lower_triangular :: "tensor \<Rightarrow> bool" where
  "lower_triangular t =
     (case shape t of
        [m, n] \<Rightarrow> list_all (\<lambda>i. list_all (\<lambda>j. data t ! (i * n + j) = 0) [Suc i..<n]) [0..<m]
      | _ \<Rightarrow> False)"

definition upper_triangular :: "tensor \<Rightarrow> bool" where
  "upper_triangular t =
     (case shape t of
        [m, n] \<Rightarrow> list_all (\<lambda>i. list_all (\<lambda>j. data t ! (i * n + j) = 0) [0..<min i n]) [0..<m]
      | _ \<Rightarrow> False)"

section \<open>The output-argument protocol\<close>






section \<open>Notions the theorems use\<close>


text \<open>
  Instances of the parameters, for concrete inputs: a promotion that knows equal dtypes
  only (the spec has the promotion of a dtype with itself be that dtype), a promotion
  that also takes a floating-point dtype over a dtype that is none (the spec has mixed
  promotion favour the float branch), a conversion for small integers (between the
  numeric dtypes the library keeps their value; to bool it tests for non-zero), a
  tensordot kernel that refuses operands that are no floating-point tensors, and a
  plain-array operation that returns the arguments of its call under the parameter
  names of layer_norm.
\<close>

definition same_dtype_promotion :: promotion where
  "same_dtype_promotion a b = (if a = b then Inr a else Inl UnsupportedPromotion)"


definition small_integer_cast :: conversion where
  "small_integer_cast d d' v = (if d' = Bool then (if v = 0 then 0 else 1) else v)"


definition call_record :: "leaf nest list \<Rightarrow> error + leaf nest" where
  "call_record args =
     Inr (Container
            (zip [''x'', ''normalized_idxs'', ''weight'', ''bias'', ''epsilon'', ''new_std'', ''out'']
               args))"

section \<open>Theorems\<close>

text \<open>
  C10. With \<^verbatim>\<open>ord\<close> equal to \<^verbatim>\<open>float('inf')\<close> or \<^verbatim>\<open>float('-inf')\<close>, matrix_norm
  raises during the conversion of \<^verbatim>\<open>ord\<close> to an int: whatever the kernel, the tensor,
  the axes, the buffer and the store, the call ends in OverflowError, so the kernel's
  answer is never used and no buffer is written.
\<close>

theorem matrix_norm_inf_raises:
  "matrix_norm k x (OrdFloat PosInf) axis keepdims out s = Inl OverflowError
   \<and> matrix_norm k x (OrdFloat NegInf) axis keepdims out s = Inl OverflowError"
  by (simp add: matrix_norm_def)

text \<open>
  C5. The test of inv compares the function \<^verbatim>\<open>torch.linalg.det\<close> itself with 0, which
  is false for every input: the call never takes the singular-matrix branch and always
  hands the matrix (or its transpose) to the native inverse kernel, also when the matrix
  is singular.
\<close>

theorem inv_never_takes_singular_branch:
  "inv_torch k x False out s = torch_out (k x) out s
   \<and> inv_torch (\<lambda>m. Inl BackendKernelError)
        \<lparr>dtype = Float32, shape = [2, 2], data = [1, 2, 2, 4]\<rparr> False None s
      = Inl BackendKernelError"
  by (simp add: inv_torch_def torch_out_def)

subsection \<open>Concrete scenarios\<close>

lemma upt_0_2: "[0..<2] = [0, Suc 0]"
  by (simp add: numeral_2_eq_2)

lemma upt_0_4: "[0..<4] = [0, 1, 2, 3]"
  by (simp add: upt_rec)

lemma torch_transpose_matrix:
  "shape x = [m, n] \<Longrightarrow>
   torch_transpose x 1 0
     = Inr (x\<lparr>shape := [n, m],
              data := map (\<lambda>k. data x ! ((k mod m) * n + k div m)) [0..<n * m]\<rparr>)"
  by (simp add: torch_transpose_def wrap_dim_def swap_def numel_def Let_def)

lemma sqrt_25: "sqrt 25 = 5"
  using real_sqrt_abs [of 5] by simp

text \<open>
  C6. matmul on the two vectors \<open>[2, 0, 3]\<close> and \<open>[4, 1, 8]\<close> of one dtype, with the
  library's matrix product as the kernel and a promotion that maps the dtype with itself
  to itself, returns a new tensor of rank 0 whose only element is 32.
\<close>

theorem matmul_vectors_32:
  "promote_types d d = Inr d \<Longrightarrow>
   matmul promote_types convert torch_matmul
     \<lparr>dtype = d, shape = [3], data = [2, 0, 3]\<rparr>
     \<lparr>dtype = d, shape = [3], data = [4, 1, 8]\<rparr> False False None s
   = Inr (Fresh \<lparr>dtype = d, shape = [], data = [32]\<rparr>, s)"
  by (simp add: matmul_def promote_types_of_inputs_def astype_def torch_matmul_def torch_out_def)

theorem matmul_vectors_32_witness:
  "matmul same_dtype_promotion small_integer_cast torch_matmul
     \<lparr>dtype = Float32, shape = [3], data = [2, 0, 3]\<rparr>
     \<lparr>dtype = Float32, shape = [3], data = [4, 1, 8]\<rparr> False False None Map.empty
   = Inr (Fresh \<lparr>dtype = Float32, shape = [], data = [32]\<rparr>, Map.empty)"
  using matmul_vectors_32 [of same_dtype_promotion Float32 small_integer_cast Map.empty]
  by (simp add: same_dtype_promotion_def)

text \<open>
  C7. trace on the matrix \<open>[[2, 0, 3], [3, 5, 6]]\<close> with offset 0 and the default axes 0
  and 1 returns a new tensor of rank 0 whose only element is 7, the sum of the main
  diagonal; a floating-point dtype is kept, an integer one is summed as int64.
\<close>

theorem trace_matrix_7:
  "trace \<lparr>dtype = d, shape = [2, 3], data = [2, 0, 3, 3, 5, 6]\<rparr> 0 0 1 None s
   = Inr (Fresh \<lparr>dtype = (if is_float_dtype d then d else Int64), shape = [], data = [7]\<rparr>, s)"
  by (simp add: trace_def torch_diagonal_def wrap_dim_def diag_len_def numel_def torch_sum_def
      upt_0_2 Let_def)

text \<open>
  C8. vector_norm on the vector \<open>[3, 4]\<close> with order 2, no axis and no kept dimensions,
  with the library's vector norm as the kernel: the norm is 5, and the kernel's result of
  rank 0 is unsqueezed, so that the call returns a tensor of shape \<open>[1]\<close>, not of
  rank 0.
\<close>

theorem vector_norm_3_4_shape_1:
  "vector_norm torch_linalg_vector_norm \<lparr>dtype = Float32, shape = [2], data = [3, 4]\<rparr>
     None False (OrdInt 2) None s
   = Inr (Fresh \<lparr>dtype = Float32, shape = [1], data = [5]\<rparr>, s)"
  by (simp add: vector_norm_def torch_linalg_vector_norm_def is_float_dtype_def p_norm_def
      torch_out_def torch_unsqueeze_def powr_half_sqrt sqrt_25)

subsection \<open>The unsupported-dtype guard\<close>

lemma guard_raises:
  "(key, ds) \<in> set table \<Longrightarrow> key_matches key version \<Longrightarrow> x \<in> set args \<Longrightarrow> dtype x \<in> set ds
   \<Longrightarrow> with_unsupported_dtypes table version args call = Inl UnsupportedDtype"
  unfolding with_unsupported_dtypes_def unsupported_dtype_guard_def unsupported_for_def
  by (force simp: list_ex_iff)

lemma guard_1_11_0:
  "version_le version [1, 11, 0] \<Longrightarrow> dtype y = Float16 \<or> dtype y = BFloat16 \<Longrightarrow>
   with_unsupported_dtypes [(AndBelow [1, 11, 0], [Float16, BFloat16])] version [y] c
     = Inl UnsupportedDtype"
  by (intro guard_raises [of "AndBelow [1, 11, 0]" "[Float16, BFloat16]"]) auto

text \<open>
  C4. An operation guarded by a table fails with UnsupportedDtype whenever one of its
  tensor arguments has a dtype that an entry of the table lists for the active version,
  whatever the operation itself would do: its kernel is not consulted and no buffer is
  written. In particular cholesky, det and eigh under a version up to 1.11.0, and trace,
  fail so on a float16 or bfloat16 operand, for every kernel.
\<close>

theorem unsupported_dtype_raises:
  assumes "(key, ds) \<in> set table" and "key_matches key version"
    and "x \<in> set args" and "dtype x \<in> set ds"
    and "version_le version [1, 11, 0]" and "dtype y = Float16 \<or> dtype y = BFloat16"
  shows "with_unsupported_dtypes table version args call = Inl UnsupportedDtype
    \<and> guarded_cholesky version kc y upper out s = Inl UnsupportedDtype
    \<and> guarded_det version kd y out s = Inl UnsupportedDtype
    \<and> guarded_eigh version ke y UPLO outs s = Inl UnsupportedDtype
    \<and> guarded_trace y offset axis1 axis2 out s = Inl UnsupportedDtype"
proof -
  have t: "guarded_trace y offset axis1 axis2 out s = Inl UnsupportedDtype"
    using assms(6) by (auto simp: guarded_trace_def unsupported_dtype_guard_def)
  show ?thesis
    unfolding guarded_cholesky_def guarded_det_def guarded_eigh_def
    by (intro conjI guard_raises [OF assms(1-4)] guard_1_11_0 [OF assms(5,6)] t)
qed

theorem unsupported_dtype_raises_witness:
  "guarded_cholesky [1, 10, 2] (\<lambda>m. Inl BackendKernelError)
      \<lparr>dtype = Float16, shape = [1, 1], data = [4]\<rparr> True None Map.empty = Inl UnsupportedDtype
   \<and> guarded_det [1, 10, 2] (\<lambda>m. Inl BackendKernelError)
      \<lparr>dtype = Float16, shape = [1, 1], data = [4]\<rparr> None Map.empty = Inl UnsupportedDtype
   \<and> guarded_eigh [1, 10, 2] (\<lambda>m u. Inl BackendKernelError)
      \<lparr>dtype = Float16, shape = [1, 1], data = [4]\<rparr> ''L'' None Map.empty = Inl UnsupportedDtype
   \<and> guarded_trace \<lparr>dtype = Float16, shape = [1, 1], data = [4]\<rparr> 0 0 1 None Map.empty
      = Inl UnsupportedDtype"
  using unsupported_dtype_raises
    [of "AndBelow [1, 11, 0]" "[Float16, BFloat16]" "[(AndBelow [1, 11, 0], [Float16, BFloat16])]"
      "[1, 10, 2]" "\<lparr>dtype = Float16, shape = [1, 1], data = [4]\<rparr>"
      "[\<lparr>dtype = Float16, shape = [1, 1], data = [4]\<rparr>]"
      "\<lparr>dtype = Float16, shape = [1, 1], data = [4]\<rparr>"
      "Inr ()" "\<lambda>m. Inl BackendKernelError" True None Map.empty
      "\<lambda>m. Inl BackendKernelError" "\<lambda>m u. Inl BackendKernelError" "''L''" None 0 0 1]
  by simp

subsection \<open>Containers\<close>

text \<open>
  C2. Broadcasting an operation over a Container with the keys \<open>k1\<close>, \<open>k2\<close> and a second
  Container that has both keys (in any order) applies the operation per key and returns
  the Container of the two results under \<open>k1\<close>, \<open>k2\<close> in the order of the first. The
  method layer_norm of a Container with Containers for normalized_idxs, bias and new_std
  returns, under each key, what the plain-array layer_norm returns on the leaf of that
  key with the parameters of that key; a failure of the plain-array operation is the
  failure of the call.
\<close>

theorem broadcast_two_keys:
  assumes "map_of kvs2 k1 = Some (Leaf ya)" and "map_of kvs2 k2 = Some (Leaf yb)"
    and "map_of idxs k1 = Some ia" and "map_of idxs k2 = Some ib"
    and "map_of stds k1 = Some sa" and "map_of stds k2 = Some sb"
    and "map_of biases k1 = Some ba" and "map_of biases k2 = Some bb"
  shows "broadcast op (Container [(k1, Leaf xa), (k2, Leaf xb)]) [Container kvs2]
      = (case op [Leaf xa, Leaf ya] of
           Inl e \<Rightarrow> Inl e
         | Inr ra \<Rightarrow>
             (case op [Leaf xb, Leaf yb] of
                Inl e \<Rightarrow> Inl e
              | Inr rb \<Rightarrow> Inr (Container [(k1, ra), (k2, rb)])))
    \<and> layer_norm f (Container [(k1, Leaf xa), (k2, Leaf xb)]) (Container idxs) (Leaf w)
        (Container biases) (Leaf eps) (Container stds) (Leaf out)
      = (case f [Leaf xa, ia, Leaf w, ba, Leaf eps, sa, Leaf out] of
           Inl e \<Rightarrow> Inl e
         | Inr ra \<Rightarrow>
             (case f [Leaf xb, ib, Leaf w, bb, Leaf eps, sb, Leaf out] of
                Inl e \<Rightarrow> Inl e
              | Inr rb \<Rightarrow> Inr (Container [(k1, ra), (k2, rb)])))"
  using assms
  by (simp add: layer_norm_def ivy_layer_norm_def split: sum.splits)

theorem broadcast_two_keys_witness:
  "layer_norm call_record
     (Container
        [(''a'', Leaf (Array \<lparr>dtype = Float32, shape = [3], data = [7, 10, 12]\<rparr>)),
         (''b'', Leaf (Array \<lparr>dtype = Float32, shape = [2, 3], data = [1, 2, 3, 4, 5, 6]\<rparr>))])
     (Container [(''a'', Leaf (Indices [0])), (''b'', Leaf (Indices [1]))])
     (Leaf Absent)
     (Container
        [(''a'', Leaf (Array \<lparr>dtype = Float32, shape = [3], data = [1 / 5, 1 / 2, 7 / 10]\<rparr>)),
         (''b'', Leaf (Scalar (3 / 10)))])
     (Leaf (Scalar (1 / 100000)))
     (Container [(''a'', Leaf (Scalar (5 / 4))), (''b'', Leaf (Scalar (3 / 2)))])
     (Leaf Absent)
   = Inr (Container
       [(''a'',
         Container
           [(''x'', Leaf (Array \<lparr>dtype = Float32, shape = [3], data = [7, 10, 12]\<rparr>)),
            (''normalized_idxs'', Leaf (Indices [0])),
            (''weight'', Leaf Absent),
            (''bias'',
             Leaf (Array \<lparr>dtype = Float32, shape = [3], data = [1 / 5, 1 / 2, 7 / 10]\<rparr>)),
            (''epsilon'', Leaf (Scalar (1 / 100000))),
            (''new_std'', Leaf (Scalar (5 / 4))),
            (''out'', Leaf Absent)]),
        (''b'',
         Container
           [(''x'',
             Leaf (Array \<lparr>dtype = Float32, shape = [2, 3], data = [1, 2, 3, 4, 5, 6]\<rparr>)),
            (''normalized_idxs'', Leaf (Indices [1])),
            (''weight'', Leaf Absent),
            (''bias'', Leaf (Scalar (3 / 10))),
            (''epsilon'', Leaf (Scalar (1 / 100000))),
            (''new_std'', Leaf (Scalar (3 / 2))),
            (''out'', Leaf Absent)])])"
  using broadcast_two_keys
    [of "[(''b'', Leaf (Scalar 2)), (''a'', Leaf (Scalar 1))]" "''a''" "Scalar 1" "''b''" "Scalar 2"
      "[(''a'', Leaf (Indices [0])), (''b'', Leaf (Indices [1]))]"
      "Leaf (Indices [0])" "Leaf (Indices [1])"
      "[(''a'', Leaf (Scalar (5 / 4))), (''b'', Leaf (Scalar (3 / 2)))]"
      "Leaf (Scalar (5 / 4))" "Leaf (Scalar (3 / 2))"
      "[(''a'', Leaf (Array \<lparr>dtype = Float32, shape = [3], data = [1 / 5, 1 / 2, 7 / 10]\<rparr>)),
        (''b'', Leaf (Scalar (3 / 10)))]"
      "Leaf (Array \<lparr>dtype = Float32, shape = [3], data = [1 / 5, 1 / 2, 7 / 10]\<rparr>)"
      "Leaf (Scalar (3 / 10))"
      call_record
      "Array \<lparr>dtype = Float32, shape = [3], data = [7, 10, 12]\<rparr>"
      "Array \<lparr>dtype = Float32, shape = [2, 3], data = [1, 2, 3, 4, 5, 6]\<rparr>"
      call_record Absent "Scalar (1 / 100000)" Absent]
  by (simp add: call_record_def)

subsection \<open>The output buffer\<close>







subsection \<open>Promotion before the kernel\<close>














subsection \<open>The upper Cholesky factor\<close>

lemma transposed_index:
  fixes k m n :: nat
  assumes "k < m * n"
  shows "(k mod n) * m + k div n < n * m"
    and "((k mod n) * m + k div n) mod m = k div n"
    and "((k mod n) * m + k div n) div m = k mod n"
proof -
  have n: "0 < n" using assms by (cases n) auto
  have d: "k div n < m" using assms by (simp add: less_mult_imp_div_less mult.commute)
  have r: "k mod n < n" using n by simp
  have "(k mod n) * m + k div n < (k mod n) * m + m" using d by simp
  also have "\<dots> = (Suc (k mod n)) * m" by simp
  also have "\<dots> \<le> n * m" using r by (intro mult_le_mono1) simp
  finally show "(k mod n) * m + k div n < n * m" .
  show "((k mod n) * m + k div n) mod m = k div n" using d by simp
  show "((k mod n) * m + k div n) div m = k mod n" using d by simp
qed

lemma torch_transpose_twice:
  assumes "shape l = [m, n]" and "length (data l) = m * n" and "torch_transpose l 1 0 = Inr u"
  shows "torch_transpose u 1 0 = Inr l"
proof -
  let ?f = "\<lambda>k. data l ! ((k mod m) * n + k div m)"
  have u: "u = l\<lparr>shape := [n, m], data := map ?f [0..<n * m]\<rparr>"
    using assms(1,3) by (simp add: torch_transpose_matrix)
  have su: "shape u = [n, m]" by (simp add: u)
  have "map (\<lambda>k. data u ! ((k mod n) * m + k div n)) [0..<m * n] = map (\<lambda>k. data l ! k) [0..<m * n]"
  proof (rule map_cong [OF refl])
    fix k assume "k \<in> set [0..<m * n]"
    then have k: "k < m * n" by simp
    have "data u ! ((k mod n) * m + k div n) = ?f ((k mod n) * m + k div n)"
      using transposed_index(1) [OF k] by (simp add: u)
    also have "\<dots> = data l ! (k div n * n + k mod n)"
      by (simp only: transposed_index(2,3) [OF k])
    also have "\<dots> = data l ! k" by simp
    finally show "data u ! ((k mod n) * m + k div n) = data l ! k" .
  qed
  also have "\<dots> = data l" using assms(2) map_nth [of "data l"] by simp
  finally have d: "map (\<lambda>k. data u ! ((k mod n) * m + k div n)) [0..<m * n] = data l" .
  have "torch_transpose u 1 0
      = Inr (u\<lparr>shape := [m, n],
               data := map (\<lambda>k. data u ! ((k mod n) * m + k div n)) [0..<m * n]\<rparr>)"
    by (rule torch_transpose_matrix [OF su])
  also have "\<dots> = Inr (u\<lparr>shape := [m, n], data := data l\<rparr>)"
    by (simp only: d)
  also have "\<dots> = Inr l"
    using assms(1) by (simp add: u)
  finally show ?thesis .
qed

lemma transpose_lower_is_upper:
  assumes "shape l = [n, n]" and "lower_triangular l" and "torch_transpose l 1 0 = Inr u"
  shows "upper_triangular u"
proof -
  have u: "u = l\<lparr>shape := [n, n], data := map (\<lambda>k. data l ! ((k mod n) * n + k div n)) [0..<n * n]\<rparr>"
    using assms(1,3) by (simp add: torch_transpose_matrix)
  have low: "data l ! (i * n + j) = 0" if "i < j" "j < n" for i j
    using assms(1,2) that by (auto simp: lower_triangular_def list_all_iff)
  have "data u ! (i * n + j) = 0" if "j < i" "i < n" for i j
  proof -
    have lt: "i * n + j < n * n"
    proof -
      have "i * n + j < i * n + n" using that by simp
      also have "\<dots> = Suc i * n" by simp
      also have "\<dots> \<le> n * n" using that by (intro mult_le_mono1) simp
      finally show ?thesis .
    qed
    have "j < n" using that by simp
    then have "data u ! (i * n + j) = data l ! (j * n + i)"
      using lt by (simp add: u)
    then show ?thesis using low [OF that] by simp
  qed
  then show ?thesis
    by (auto simp: upper_triangular_def list_all_iff u)
qed

text \<open>
  C9. For a square matrix \<open>x\<close> that is symmetric (its transpose is \<open>x\<close>), and a kernel
  that returns for \<open>x\<close> a lower-triangular factor \<open>l\<close> with \<open>l\<close> times its transpose
  equal to \<open>x\<close>: cholesky without \<open>upper\<close> returns \<open>l\<close>, cholesky with \<open>upper\<close>
  returns the transpose \<open>u\<close> of \<open>l\<close>, \<open>u\<close> is upper-triangular, and the transpose of
  \<open>u\<close> (which is \<open>l\<close>) times \<open>u\<close> is \<open>x\<close>.
\<close>

theorem cholesky_upper_is_transpose:
  assumes "shape x = [n, n]"
    and "torch_transpose x 1 0 = Inr x"
    and "k x = Inr l"
    and "shape l = [n, n]" and "length (data l) = n * n"
    and "lower_triangular l"
    and "torch_transpose l 1 0 = Inr u"
    and "torch_matmul l u = Inr x"
  shows "cholesky k x False None s = Inr (Fresh l, s)
    \<and> cholesky k x True None s = Inr (Fresh u, s)
    \<and> upper_triangular u
    \<and> torch_transpose u 1 0 = Inr l
    \<and> torch_matmul l u = Inr x"
proof -
  have "cholesky k x False None s = Inr (Fresh l, s)"
    using assms(3) by (simp add: cholesky_def torch_out_def)
  moreover have "cholesky k x True None s = Inr (Fresh u, s)"
    using assms(1,2,3,4,7) by (simp add: cholesky_def)
  ultimately show ?thesis
    using transpose_lower_is_upper [OF assms(4,6,7)] torch_transpose_twice [OF assms(4,5,7)]
      assms(8)
    by simp
qed

theorem cholesky_upper_is_transpose_witness:
  "cholesky (\<lambda>m. Inr \<lparr>dtype = Float64, shape = [2, 2], data = [2, 0, 1, 1]\<rparr>)
      \<lparr>dtype = Float64, shape = [2, 2], data = [4, 2, 2, 2]\<rparr> True None Map.empty
    = Inr (Fresh \<lparr>dtype = Float64, shape = [2, 2], data = [2, 1, 0, 1]\<rparr>, Map.empty)
   \<and> upper_triangular \<lparr>dtype = Float64, shape = [2, 2], data = [2, 1, 0, 1]\<rparr>
   \<and> torch_transpose \<lparr>dtype = Float64, shape = [2, 2], data = [2, 1, 0, 1]\<rparr> 1 0
      = Inr \<lparr>dtype = Float64, shape = [2, 2], data = [2, 0, 1, 1]\<rparr>
   \<and> torch_matmul \<lparr>dtype = Float64, shape = [2, 2], data = [2, 0, 1, 1]\<rparr>
        \<lparr>dtype = Float64, shape = [2, 2], data = [2, 1, 0, 1]\<rparr>
      = Inr \<lparr>dtype = Float64, shape = [2, 2], data = [4, 2, 2, 2]\<rparr>"
proof -
  let ?x = "\<lparr>dtype = Float64, shape = [2, 2], data = [4, 2, 2, 2]\<rparr>"
  let ?l = "\<lparr>dtype = Float64, shape = [2, 2], data = [2, 0, 1, 1]\<rparr>"
  let ?u = "\<lparr>dtype = Float64, shape = [2, 2], data = [2, 1, 0, 1]\<rparr>"
  have sym: "torch_transpose ?x 1 0 = Inr ?x"
    by (simp add: torch_transpose_matrix upt_0_4)
  have tr: "torch_transpose ?l 1 0 = Inr ?u"
    by (simp add: torch_transpose_matrix upt_0_4)
  have low: "lower_triangular ?l"
    by (simp add: lower_triangular_def upt_0_2 upt_rec)
  have prod: "torch_matmul ?l ?u = Inr ?x"
    by (simp add: torch_matmul_def mat_prod_def upt_0_2)
  show ?thesis
    using cholesky_upper_is_transpose [of ?x 2 "\<lambda>m. Inr ?l" ?l ?u Map.empty, OF _ sym _ _ _ low tr prod]
    by simp
qed

end
